theory Spec2Isabelle
  imports Complex_Main
begin

section \<open>JavaScript numbers\<close>

text \<open>
  The canvas manager computes with JavaScript numbers. They are read here as exact
  reals: rounding of IEEE doubles is outside the model. What is kept of IEEE arithmetic
  is division by zero, which does not raise in JavaScript: a quotient whose divisor can
  be zero is a \<open>jsnum\<close>, finite or one of the three special values. The zero of the
  reals stands for \<open>+0\<close>.
\<close>

datatype jsnum = Fin real | PosInf | NegInf | NaN

definition js_div :: "real \<Rightarrow> real \<Rightarrow> jsnum" where
  "js_div x y =
     (if y \<noteq> 0 then Fin (x / y)
      else if 0 < x then PosInf
      else if x < 0 then NegInf
      else NaN)"

text \<open>\<open>q * y\<close> for a quotient \<open>q\<close> and a finite \<open>y\<close>.\<close>

fun js_mul :: "jsnum \<Rightarrow> real \<Rightarrow> jsnum" where
  "js_mul (Fin x) y = Fin (x * y)"
| "js_mul PosInf y = (if 0 < y then PosInf else if y < 0 then NegInf else NaN)"
| "js_mul NegInf y = (if 0 < y then NegInf else if y < 0 then PosInf else NaN)"
| "js_mul NaN y = NaN"

text \<open>\<open>Math.min(c, x)\<close> and \<open>Math.max(c, x)\<close> for a finite constant \<open>c\<close>.\<close>

fun js_min :: "real \<Rightarrow> jsnum \<Rightarrow> jsnum" where
  "js_min c (Fin x) = Fin (min c x)"
| "js_min c PosInf = Fin c"
| "js_min c NegInf = NegInf"
| "js_min c NaN = NaN"

fun js_max :: "real \<Rightarrow> jsnum \<Rightarrow> jsnum" where
  "js_max c (Fin x) = Fin (max c x)"
| "js_max c PosInf = PosInf"
| "js_max c NegInf = Fin c"
| "js_max c NaN = NaN"

text \<open>\<open>x || 1\<close> on a number: zero is falsy.\<close>

definition or1 :: "real \<Rightarrow> real" where
  "or1 x = (if x = 0 then 1 else x)"

text \<open>\<open>s || d\<close> on a string: the empty string is falsy.\<close>

definition or_str :: "string \<Rightarrow> string \<Rightarrow> string" where
  "or_str s d = (if s = [] then d else s)"

text \<open>\<open>!!v\<close> for a field that holds \<open>null\<close> or a string.\<close>

fun truthy :: "string option \<Rightarrow> bool" where
  "truthy None = False"
| "truthy (Some s) = (s \<noteq> [])"

section \<open>Fabric objects\<close>

text \<open>
  A Fabric object is a record of the properties the manager reads or writes. The
  geometry fields \<open>left\<close>, \<open>top\<close>, \<open>width\<close>, \<open>height\<close> carry the prefix \<open>o_\<close>
  and the field \<open>text\<close> is \<open>content\<close>. Three fields hold what a Fabric method
  returns for the object, since Fabric itself is not part of the repository:
  \<open>boundingRect\<close> for \<open>getBoundingRect()\<close>, \<open>linePoints\<close> for \<open>calcLinePoints()\<close>
  and \<open>transformMatrix\<close> for \<open>calcTransformMatrix()\<close>. Properties that only style
  the drawing (fill of a mask, dash pattern, cursors, origin, selectability) are left
  out.
\<close>

datatype obj_type = Image | Rect | IText | Textbox | Line

type_synonym box = "real \<times> real \<times> real \<times> real"

type_synonym matrix = "real \<times> real \<times> real \<times> real \<times> real \<times> real"

record fobj =
  otype :: obj_type
  o_left :: real
  o_top :: real
  o_width :: real
  o_height :: real
  scaleX :: real
  scaleY :: real
  angle :: real
  isOverlay :: bool
  isMask :: bool
  filters :: "real list"
  hasElement :: bool
  content :: string
  textAlign :: string
  fontFamily :: string
  fontSize :: real
  fill :: string
  fontWeight :: string
  fontStyle :: string
  underline :: bool
  boundingRect :: box
  stroke :: string
  strokeWidth :: real
  linePoints :: box
  transformMatrix :: matrix

definition blank :: "obj_type \<Rightarrow> fobj" where
  "blank t =
     \<lparr>otype = t, o_left = 0, o_top = 0, o_width = 0, o_height = 0,
      scaleX = 1, scaleY = 1, angle = 0, isOverlay = False, isMask = False,
      filters = [], hasElement = False, content = [], textAlign = [],
      fontFamily = [], fontSize = 0, fill = [], fontWeight = [], fontStyle = [],
      underline = False, boundingRect = (0, 0, 0, 0), stroke = [], strokeWidth = 0,
      linePoints = (0, 0, 0, 0), transformMatrix = (1, 0, 0, 1, 0, 0)\<rparr>"

definition new_rect :: "real \<Rightarrow> real \<Rightarrow> real \<Rightarrow> real \<Rightarrow> fobj" where
  "new_rect l t w h = (blank Rect)\<lparr>o_left := l, o_top := t, o_width := w, o_height := h\<rparr>"

definition geom :: "fobj \<Rightarrow> box" where
  "geom ob = (o_left ob, o_top ob, o_width ob, o_height ob)"


section \<open>The canvas manager\<close>

record frame_info =
  displayWidth :: real
  displayHeight :: real
  displayLeft :: real
  displayTop :: real
  originalWidth :: real
  originalHeight :: real
  scale :: real

record coords =
  c_left :: jsnum
  c_top :: jsnum
  c_width :: jsnum
  c_height :: jsnum

text \<open>
  The data URL of a captured selection is represented by what was drawn into the
  temporary canvas: the source rectangle of the crop and the blur radius, if any.
\<close>

record capture =
  cropX :: jsnum
  cropY :: jsnum
  cropW :: jsnum
  cropH :: jsnum
  blurRadius :: "real option"

record locked =
  l_mode :: string
  l_selectionCoords :: coords
  l_blur :: real
  l_backgroundColor :: string
  l_gradientColors :: "string \<times> string"
  l_gradientDirection :: string
  l_videoBase :: "string option"
  l_videoPath :: "string option"
  l_timestamp :: real
  capturedImageUrl :: "capture option"

datatype phase = Background | Elements

datatype background = Color string | Gradient box "string \<times> string"

text \<open>
  Objects live in a store \<open>heap\<close> indexed by identities; \<open>nextId\<close> is the next
  identity \<open>new\<close> hands out. The canvas's object list and the manager's own
  references hold identities, so that an update through one reference is seen through
  every other, as in the source.
\<close>

record manager =
  canvasWidth :: real
  canvasHeight :: real
  overlayZoom :: real
  heap :: "nat \<Rightarrow> fobj"
  nextId :: nat
  objects :: "nat list"
  activeObject :: "nat option"
  canvasBackground :: background
  frameImage :: "nat option"
  selectionOverlay :: "nat option"
  darkMaskRects :: "nat list"
  frameDisplayInfo :: "frame_info option"
  backgroundMode :: string
  backgroundColor :: string
  gradientColors :: "string \<times> string"
  gradientDirection :: string
  blurAmount :: real
  workflowPhase :: phase
  lockedBackgroundData :: "locked option"
  videoBase :: "string option"
  videoPath :: "string option"
  currentTimestamp :: real

definition imageModeWidth :: real where "imageModeWidth = 800"
definition imageModeHeight :: real where "imageModeHeight = 500"
definition posterModeWidth :: real where "posterModeWidth = 400"
definition posterModeHeight :: real where "posterModeHeight = 600"
definition baseOverlayHeight :: real where "baseOverlayHeight = 400"

section \<open>Canvas operations of Fabric\<close>

text \<open>
  \<open>canvas.add\<close> appends to the object list. \<open>canvas.remove\<close> takes out the first
  occurrence and, when the object was the active one, clears the selection; an object
  that is not on the canvas is ignored. \<open>sendToBack\<close> and \<open>bringToFront\<close> move an
  object to the two ends of the list.
\<close>

definition canvas_add :: "nat \<Rightarrow> manager \<Rightarrow> manager" where
  "canvas_add k s = s\<lparr>objects := objects s @ [k]\<rparr>"

definition canvas_remove :: "nat \<Rightarrow> manager \<Rightarrow> manager" where
  "canvas_remove k s =
     (if k \<in> set (objects s)
      then s\<lparr>objects := remove1 k (objects s),
             activeObject := (if activeObject s = Some k then None else activeObject s)\<rparr>
      else s)"

definition sendToBack :: "nat \<Rightarrow> manager \<Rightarrow> manager" where
  "sendToBack k s = s\<lparr>objects := k # remove1 k (objects s)\<rparr>"

definition bringToFront :: "nat \<Rightarrow> manager \<Rightarrow> manager" where
  "bringToFront k s = s\<lparr>objects := remove1 k (objects s) @ [k]\<rparr>"

text \<open>\<open>new\<close>: store the object under the next identity.\<close>

definition alloc :: "fobj \<Rightarrow> manager \<Rightarrow> manager" where
  "alloc ob s = s\<lparr>heap := (heap s)(nextId s := ob), nextId := Suc (nextId s)\<rparr>"

text \<open>\<open>obj.set({...})\<close>: update the stored object.\<close>

definition set_obj :: "nat \<Rightarrow> (fobj \<Rightarrow> fobj) \<Rightarrow> manager \<Rightarrow> manager" where
  "set_obj k f s = s\<lparr>heap := (heap s)(k := f (heap s k))\<rparr>"

section \<open>Overlay and dimming mask\<close>

definition reorderObjects :: "manager \<Rightarrow> manager" where
  "reorderObjects s =
     (let s1 = (case frameImage s of Some k \<Rightarrow> sendToBack k s | None \<Rightarrow> s);
          s2 = fold bringToFront (darkMaskRects s1) s1;
          s3 = (case selectionOverlay s2 of Some k \<Rightarrow> bringToFront k s2 | None \<Rightarrow> s2)
      in fold (\<lambda>k t. if otype (heap t k) = IText \<or> otype (heap t k) = Line
                      then bringToFront k t else t)
              (objects s3) s3)"

definition createSelectionOverlay :: "manager \<Rightarrow> manager" where
  "createSelectionOverlay s =
     (let s1 = (case selectionOverlay s of Some k \<Rightarrow> canvas_remove k s | None \<Rightarrow> s);
          overlayHeight = baseOverlayHeight * overlayZoom s1;
          overlayWidth = overlayHeight * (2 / 3);
          overlayLeft = (canvasWidth s1 - overlayWidth) / 2;
          overlayTop = (canvasHeight s1 - overlayHeight) / 2;
          k = nextId s1;
          s2 = alloc ((new_rect overlayLeft overlayTop overlayWidth overlayHeight)
                        \<lparr>isOverlay := True\<rparr>) s1
      in canvas_add k (s2\<lparr>selectionOverlay := Some k\<rparr>))"

text \<open>The four rectangles \<open>_createDarkMask\<close> builds around the overlay \<open>ov\<close>.\<close>

definition add_masks :: "nat \<Rightarrow> manager \<Rightarrow> manager" where
  "add_masks ov s =
     (let overlay = heap s ov;
          topRect = new_rect 0 0 (canvasWidth s) (o_top overlay);
          bottomRect = new_rect 0 (o_top overlay + o_height overlay) (canvasWidth s)
                         (canvasHeight s - (o_top overlay + o_height overlay));
          leftRect = new_rect 0 (o_top overlay) (o_left overlay) (o_height overlay);
          rightRect = new_rect (o_left overlay + o_width overlay) (o_top overlay)
                         (canvasWidth s - (o_left overlay + o_width overlay))
                         (o_height overlay);
          n = nextId s;
          s2 = alloc rightRect (alloc leftRect (alloc bottomRect (alloc topRect s)));
          ids = [n, n + 1, n + 2, n + 3]
      in fold (\<lambda>k t. canvas_add k (set_obj k (\<lambda>r. r\<lparr>isMask := True\<rparr>) t)) ids
           (s2\<lparr>darkMaskRects := ids\<rparr>))"

definition createDarkMask :: "manager \<Rightarrow> manager" where
  "createDarkMask s =
     (let s1 = (fold canvas_remove (darkMaskRects s) s)\<lparr>darkMaskRects := []\<rparr>
      in case selectionOverlay s1 of
           None \<Rightarrow> s1
         | Some ov \<Rightarrow> reorderObjects (add_masks ov s1))"

text \<open>
  \<open>_updateDarkMask\<close> writes the four rectangles one after the other; every write
  reads the overlay as it is at that moment.
\<close>

definition update_top :: "nat \<Rightarrow> nat \<Rightarrow> manager \<Rightarrow> manager" where
  "update_top ov topRect s =
     set_obj topRect (\<lambda>r. r\<lparr>o_height := max 0 (o_top (heap s ov))\<rparr>) s"

definition update_bottom :: "nat \<Rightarrow> nat \<Rightarrow> manager \<Rightarrow> manager" where
  "update_bottom ov bottomRect s =
     set_obj bottomRect
       (\<lambda>r. r\<lparr>o_top := o_top (heap s ov) + o_height (heap s ov),
              o_height := max 0 (canvasHeight s
                            - (o_top (heap s ov) + o_height (heap s ov)))\<rparr>) s"

definition update_left :: "nat \<Rightarrow> nat \<Rightarrow> manager \<Rightarrow> manager" where
  "update_left ov leftRect s =
     set_obj leftRect
       (\<lambda>r. r\<lparr>o_top := o_top (heap s ov),
              o_width := max 0 (o_left (heap s ov)),
              o_height := o_height (heap s ov)\<rparr>) s"

definition update_right :: "nat \<Rightarrow> nat \<Rightarrow> manager \<Rightarrow> manager" where
  "update_right ov rightRect s =
     set_obj rightRect
       (\<lambda>r. r\<lparr>o_left := o_left (heap s ov) + o_width (heap s ov),
              o_top := o_top (heap s ov),
              o_width := max 0 (canvasWidth s - (o_left (heap s ov) + o_width (heap s ov))),
              o_height := o_height (heap s ov)\<rparr>) s"

definition updateDarkMask :: "manager \<Rightarrow> manager" where
  "updateDarkMask s =
     (case selectionOverlay s of
        None \<Rightarrow> s
      | Some ov \<Rightarrow>
          (if length (darkMaskRects s) \<noteq> 4 then s
           else update_right ov (darkMaskRects s ! 3)
                  (update_left ov (darkMaskRects s ! 2)
                     (update_bottom ov (darkMaskRects s ! 1)
                        (update_top ov (darkMaskRects s ! 0) s)))))"

definition constrainOverlay :: "manager \<Rightarrow> manager" where
  "constrainOverlay s =
     (case (selectionOverlay s, frameDisplayInfo s) of
        (Some ov, Some frame) \<Rightarrow>
          (let overlay = heap s ov;
               newLeft = o_left overlay;
               newTop = o_top overlay;
               newLeft = (if newLeft < displayLeft frame then displayLeft frame else newLeft);
               newLeft = (if newLeft + o_width overlay > displayLeft frame + displayWidth frame
                          then displayLeft frame + displayWidth frame - o_width overlay
                          else newLeft);
               newTop = (if newTop < displayTop frame then displayTop frame else newTop);
               newTop = (if newTop + o_height overlay > displayTop frame + displayHeight frame
                         then displayTop frame + displayHeight frame - o_height overlay
                         else newTop)
           in set_obj ov (\<lambda>r. r\<lparr>o_left := newLeft, o_top := newTop\<rparr>) s)
      | _ \<Rightarrow> s)"





definition resetOverlayPosition :: "manager \<Rightarrow> manager" where
  "resetOverlayPosition s =
     (case selectionOverlay s of
        None \<Rightarrow> s
      | Some ov \<Rightarrow>
          (let overlayWidth = o_width (heap s ov);
               overlayHeight = o_height (heap s ov)
           in updateDarkMask (constrainOverlay
                (set_obj ov (\<lambda>r. r\<lparr>o_left := (canvasWidth s - overlayWidth) / 2,
                                     o_top := (canvasHeight s - overlayHeight) / 2\<rparr>) s))))"

section \<open>Frames and backgrounds\<close>

definition resizeCanvas :: "real \<Rightarrow> real \<Rightarrow> manager \<Rightarrow> manager" where
  "resizeCanvas w h s =
     (if canvasWidth s = w \<and> canvasHeight s = h then s
      else s\<lparr>canvasWidth := w, canvasHeight := h\<rparr>)"

definition applyBlurFilter :: "manager \<Rightarrow> manager" where
  "applyBlurFilter s =
     (case frameImage s of
        None \<Rightarrow> s
      | Some k \<Rightarrow>
          (if blurAmount s > 0
           then set_obj k (\<lambda>r. r\<lparr>filters := [blurAmount s / 50]\<rparr>) s
           else set_obj k (\<lambda>r. r\<lparr>filters := []\<rparr>) s))"

definition applyGradient :: "manager \<Rightarrow> manager" where
  "applyGradient s =
     (let coords =
            (if gradientDirection s = ''horizontal'' then (0, 0, canvasWidth s, 0)
             else if gradientDirection s = ''diagonal''
             then (0, 0, canvasWidth s, canvasHeight s)
             else (0, 0, 0, canvasHeight s))
      in s\<lparr>canvasBackground := Gradient coords (gradientColors s)\<rparr>)"

text \<open>
  \<open>setFrame\<close> is asynchronous. Its synchronous part records the timestamp and, in
  image mode with a video selected, asks Fabric for the preview frame: the request is
  returned beside the state. \<open>setFrame_loaded\<close> is the callback that runs when the
  image of natural size \<open>w \<times> h\<close> has arrived. The frame record holds reals, so the
  callback is modelled only where its quotients are finite; elsewhere it is \<open>None\<close>.
\<close>

definition setFrame :: "real \<Rightarrow> manager \<Rightarrow> manager \<times> (string \<times> string \<times> real) option" where
  "setFrame timestamp s =
     (case (videoBase s, videoPath s) of
        (Some base, Some path) \<Rightarrow>
          (if base = [] \<or> path = [] then (s, None)
           else
             (let s1 = s\<lparr>currentTimestamp := timestamp\<rparr>
              in if backgroundMode s1 \<noteq> ''image'' then (s1, None)
                 else (s1, Some (base, path, timestamp))))
      | _ \<Rightarrow> (s, None))"

definition fitFrame :: "real \<Rightarrow> real \<Rightarrow> real \<Rightarrow> real \<Rightarrow> frame_info" where
  "fitFrame w h cw ch =
     (let frameAspect = w / h;
          canvasAspect = cw / ch;
          displayWidth = (if frameAspect > canvasAspect then cw else ch * frameAspect);
          displayHeight = (if frameAspect > canvasAspect then cw / frameAspect else ch)
      in \<lparr>displayWidth = displayWidth, displayHeight = displayHeight,
          displayLeft = (cw - displayWidth) / 2, displayTop = (ch - displayHeight) / 2,
          originalWidth = w, originalHeight = h, scale = displayWidth / w\<rparr>)"

text \<open>
  The callback up to the point where the new frame image is on the canvas, behind
  everything else.
\<close>

definition place_frame :: "real \<Rightarrow> real \<Rightarrow> manager \<Rightarrow> manager" where
  "place_frame w h s =
     (let img = nextId s;
          s0 = alloc ((blank Image)\<lparr>o_width := w, o_height := h, hasElement := True\<rparr>) s;
          s1 = (case frameImage s0 of Some k \<Rightarrow> canvas_remove k s0 | None \<Rightarrow> s0);
          frame = fitFrame w h (canvasWidth s1) (canvasHeight s1);
          s2 = set_obj img (\<lambda>r. r\<lparr>scaleX := scale frame, scaleY := scale frame,
                                    o_left := canvasWidth s1 / 2,
                                    o_top := canvasHeight s1 / 2\<rparr>) s1;
          s3 = s2\<lparr>frameDisplayInfo := Some frame, frameImage := Some img\<rparr>
      in sendToBack img (canvas_add img (applyBlurFilter s3)))"

definition setFrame_loaded :: "real \<Rightarrow> real \<Rightarrow> manager \<Rightarrow> manager option" where
  "setFrame_loaded w h s =
     (if 0 < w \<and> 0 < h \<and> canvasHeight s \<noteq> 0
      then Some (createDarkMask (createSelectionOverlay (place_frame w h s)))
      else None)"

definition getSelectionCoords :: "manager \<Rightarrow> coords" where
  "getSelectionCoords s =
     (case (frameDisplayInfo s, selectionOverlay s) of
        (Some frame, Some ov) \<Rightarrow>
          (let overlay = heap s ov;
               left = js_div (o_left overlay - displayLeft frame) (displayWidth frame);
               top = js_div (o_top overlay - displayTop frame) (displayHeight frame);
               width = js_div (o_width overlay) (displayWidth frame);
               height = js_div (o_height overlay) (displayHeight frame)
           in \<lparr>c_left = js_max 0 (js_min 1 left), c_top = js_max 0 (js_min 1 top),
               c_width = js_max 0 (js_min 1 width), c_height = js_max 0 (js_min 1 height)\<rparr>)
      | _ \<Rightarrow> \<lparr>c_left = Fin 0, c_top = Fin 0, c_width = Fin 1, c_height = Fin 1\<rparr>)"

definition captureSelectionAsImage :: "manager \<Rightarrow> capture option" where
  "captureSelectionAsImage s =
     (case (frameImage s, selectionOverlay s, frameDisplayInfo s) of
        (Some im, Some ov, Some frame) \<Rightarrow>
          (if \<not> hasElement (heap s im) then None
           else
             (let overlay = heap s ov
              in Some \<lparr>cropX = js_mul (js_div (o_left overlay - displayLeft frame)
                                  (displayWidth frame)) (originalWidth frame),
                       cropY = js_mul (js_div (o_top overlay - displayTop frame)
                                  (displayHeight frame)) (originalHeight frame),
                       cropW = js_mul (js_div (o_width overlay) (displayWidth frame))
                                  (originalWidth frame),
                       cropH = js_mul (js_div (o_height overlay) (displayHeight frame))
                                  (originalHeight frame),
                       blurRadius = (if blurAmount s > 0 then Some (blurAmount s / 2)
                                     else None)\<rparr>))
      | _ \<Rightarrow> None)"

text \<open>
  The captured data URL decodes to an image of the temporary canvas's size,
  \<open>posterModeWidth \<times> posterModeHeight\<close>.
\<close>

definition setImageBackground :: "manager \<Rightarrow> manager" where
  "setImageBackground s =
     (let img = nextId s;
          s1 = alloc ((blank Image)\<lparr>o_width := posterModeWidth, o_height := posterModeHeight,
                                     hasElement := True,
                                     scaleX := posterModeWidth / posterModeWidth,
                                     scaleY := posterModeHeight / posterModeHeight,
                                     o_left := 0, o_top := 0\<rparr>) s
      in sendToBack img (canvas_add img (s1\<lparr>frameImage := Some img\<rparr>)))"

section \<open>The two phases\<close>

text \<open>
  \<open>confirmBackground\<close> awaits the capture and the loading of the captured image; the
  model runs it as one step, with no other event between the two.
\<close>

definition confirmBackground :: "manager \<Rightarrow> manager" where
  "confirmBackground s =
     (if workflowPhase s = Elements then s
      else
        (let capturedImage =
               (if backgroundMode s = ''image'' \<and> frameImage s \<noteq> None
                   \<and> selectionOverlay s \<noteq> None
                then captureSelectionAsImage s else None);
             s1 = s\<lparr>lockedBackgroundData := Some
                    \<lparr>l_mode = backgroundMode s, l_selectionCoords = getSelectionCoords s,
                     l_blur = blurAmount s, l_backgroundColor = backgroundColor s,
                     l_gradientColors = gradientColors s,
                     l_gradientDirection = gradientDirection s,
                     l_videoBase = videoBase s, l_videoPath = videoPath s,
                     l_timestamp = currentTimestamp s,
                     capturedImageUrl = capturedImage\<rparr>\<rparr>;
             s2 = (case selectionOverlay s1 of
                     Some k \<Rightarrow> (canvas_remove k s1)\<lparr>selectionOverlay := None\<rparr>
                   | None \<Rightarrow> s1);
             s3 = (fold canvas_remove (darkMaskRects s2) s2)\<lparr>darkMaskRects := []\<rparr>;
             s4 = (case frameImage s3 of
                     Some k \<Rightarrow> (canvas_remove k s3)\<lparr>frameImage := None\<rparr>
                   | None \<Rightarrow> s3);
             s5 = resizeCanvas posterModeWidth posterModeHeight
                    (s4\<lparr>frameDisplayInfo := None\<rparr>);
             s6 = (if backgroundMode s5 = ''image'' \<and> capturedImage \<noteq> None
                   then setImageBackground s5
                   else if backgroundMode s5 = ''color''
                   then s5\<lparr>canvasBackground := Color (backgroundColor s5)\<rparr>
                   else if backgroundMode s5 = ''gradient'' then applyGradient s5
                   else s5)
         in s6\<lparr>workflowPhase := Elements\<rparr>))"

text \<open>The three parts of \<open>resetToBackgroundPhase\<close>.\<close>

definition clear_elements :: "manager \<Rightarrow> manager" where
  "clear_elements s =
     (let objectsToRemove =
            filter (\<lambda>k. otype (heap s k) = IText \<or> otype (heap s k) = Textbox
                         \<or> otype (heap s k) = Line) (objects s)
      in fold canvas_remove objectsToRemove s)"

definition clear_frame :: "manager \<Rightarrow> manager" where
  "clear_frame s =
     (case frameImage s of
        Some k \<Rightarrow> (canvas_remove k s)\<lparr>frameImage := None\<rparr>
      | None \<Rightarrow> s)"

definition restore_canvas :: "manager \<Rightarrow> manager \<times> (string \<times> string \<times> real) option" where
  "restore_canvas s =
     (if backgroundMode s = ''image''
      then (let s' = resizeCanvas imageModeWidth imageModeHeight s
            in if truthy (videoBase s') \<and> truthy (videoPath s')
               then setFrame (currentTimestamp s') s' else (s', None))
      else if backgroundMode s = ''color''
      then (let s' = resizeCanvas posterModeWidth posterModeHeight s
            in (s'\<lparr>canvasBackground := Color (backgroundColor s')\<rparr>, None))
      else if backgroundMode s = ''gradient''
      then (applyGradient (resizeCanvas posterModeWidth posterModeHeight s), None)
      else (s, None))"

definition resetToBackgroundPhase ::
  "manager \<Rightarrow> manager \<times> (string \<times> string \<times> real) option" where
  "resetToBackgroundPhase s =
     (if workflowPhase s = Background then (s, None)
      else
        (let s2 = clear_frame (clear_elements s);
             s3 = s2\<lparr>canvasBackground := Color ''#1a1a2e''\<rparr>;
             (s4, request) = restore_canvas s3
         in (s4\<lparr>workflowPhase := Background, lockedBackgroundData := None\<rparr>, request)))"

definition deleteSelected :: "manager \<Rightarrow> manager" where
  "deleteSelected s =
     (case activeObject s of
        None \<Rightarrow> s
      | Some activeObj \<Rightarrow>
          (if Some activeObj \<noteq> frameImage s \<and> \<not> isOverlay (heap s activeObj)
              \<and> \<not> isMask (heap s activeObj)
           then canvas_remove activeObj s else s))"

section \<open>Export\<close>

text \<open>
  The two-colour array \<open>gradientColors\<close> is a pair. Measuring text belongs to the
  browser: \<open>measureText\<close> is a parameter that maps the font (style and weight, size,
  family) and a line of text to the measured width.
\<close>

type_synonym font = "string \<times> real \<times> string"

record text_layer =
  t_content :: string
  t_left :: jsnum
  t_top :: jsnum
  t_fontFamily :: string
  t_fontSize :: real
  t_fill :: string
  t_fontWeight :: string
  t_fontStyle :: string
  t_underline :: bool
  t_textAlign :: string
  t_angle :: real
  t_scaleX :: real
  t_scaleY :: real
  t_width :: jsnum
  t_height :: jsnum

record line_element =
  x1 :: jsnum
  y1 :: jsnum
  x2 :: jsnum
  y2 :: jsnum
  e_stroke :: string
  e_strokeWidth :: real

record poster_data =
  p_backgroundMode :: string
  p_backgroundColor :: string
  p_gradientColors :: "string \<times> string"
  p_gradientDirection :: string
  p_videoBase :: "string option"
  p_videoPath :: "string option"
  p_timestamp :: real
  p_selectionCoords :: coords
  p_blur :: real
  p_canvasWidth :: real
  p_canvasHeight :: real
  textLayers :: "text_layer list"
  lineElements :: "line_element list"

text \<open>\<open>text.split('\n')\<close>\<close>

fun split_lines :: "string \<Rightarrow> string list" where
  "split_lines [] = [[]]"
| "split_lines (c # cs) =
     (if c = CHR 0x0A then [] # split_lines cs
      else (case split_lines cs of
              l # ls \<Rightarrow> (c # l) # ls
            | [] \<Rightarrow> [[c]]))"

text \<open>\<open>fabric.util.transformPoint\<close>: the affine map of a six-element matrix.\<close>

definition transformPoint :: "real \<times> real \<Rightarrow> matrix \<Rightarrow> real \<times> real" where
  "transformPoint p m =
     (case (p, m) of
        ((x, y), (a, b, c, d, e, f)) \<Rightarrow> (a * x + c * y + e, b * x + d * y + f))"

text \<open>The reference rectangle: left, top, width, height.\<close>

definition reference :: "manager \<Rightarrow> box" where
  "reference s =
     (if workflowPhase s = Elements \<and> lockedBackgroundData s \<noteq> None
      then (0, 0, canvasWidth s, canvasHeight s)
      else (case selectionOverlay s of
              Some ov \<Rightarrow> (o_left (heap s ov), o_top (heap s ov),
                          o_width (heap s ov), o_height (heap s ov))
            | None \<Rightarrow> (0, 0, canvasWidth s, canvasHeight s)))"

definition maxLineWidth :: "(font \<Rightarrow> string \<Rightarrow> real) \<Rightarrow> fobj \<Rightarrow> real" where
  "maxLineWidth measureText obj =
     (let fontStyle = or_str (fontStyle obj) ''normal'' @ '' ''
                        @ or_str (fontWeight obj) ''normal'';
          fontSize = fontSize obj * or1 (scaleY obj);
          font = (fontStyle, fontSize, or_str (fontFamily obj) ''Arial'')
      in fold (\<lambda>line m. max m (measureText font line)) (split_lines (content obj)) 0)"

definition textLeft :: "(font \<Rightarrow> string \<Rightarrow> real) \<Rightarrow> fobj \<Rightarrow> real" where
  "textLeft measureText obj =
     (case boundingRect obj of
        (bl, bt, bw, bh) \<Rightarrow>
          (let textAlign = or_str (textAlign obj) ''center'';
               textboxWidth = o_width obj * or1 (scaleX obj)
           in if textAlign = ''center''
              then bl + (textboxWidth - maxLineWidth measureText obj) / 2
              else if textAlign = ''right''
              then bl + textboxWidth - maxLineWidth measureText obj
              else bl))"

definition export_text :: "(font \<Rightarrow> string \<Rightarrow> real) \<Rightarrow> box \<Rightarrow> fobj \<Rightarrow> text_layer" where
  "export_text measureText r obj =
     (case (r, boundingRect obj) of
        ((referenceLeft, referenceTop, referenceWidth, referenceHeight), (bl, bt, bw, bh)) \<Rightarrow>
          \<lparr>t_content = content obj,
           t_left = js_div (textLeft measureText obj - referenceLeft) referenceWidth,
           t_top = js_div (bt - referenceTop) referenceHeight,
           t_fontFamily = fontFamily obj,
           t_fontSize = fontSize obj,
           t_fill = fill obj,
           t_fontWeight = or_str (fontWeight obj) ''normal'',
           t_fontStyle = or_str (fontStyle obj) ''normal'',
           t_underline = underline obj,
           t_textAlign = or_str (textAlign obj) ''center'',
           t_angle = angle obj,
           t_scaleX = or1 (scaleX obj),
           t_scaleY = or1 (scaleY obj),
           t_width = js_div (maxLineWidth measureText obj) referenceWidth,
           t_height = js_div bh referenceHeight\<rparr>)"

definition export_line :: "box \<Rightarrow> fobj \<Rightarrow> line_element" where
  "export_line r obj =
     (case (r, linePoints obj) of
        ((referenceLeft, referenceTop, referenceWidth, referenceHeight), (px1, py1, px2, py2)) \<Rightarrow>
          (let point1 = transformPoint (px1, py1) (transformMatrix obj);
               point2 = transformPoint (px2, py2) (transformMatrix obj)
           in \<lparr>x1 = js_div (fst point1 - referenceLeft) referenceWidth,
               y1 = js_div (snd point1 - referenceTop) referenceHeight,
               x2 = js_div (fst point2 - referenceLeft) referenceWidth,
               y2 = js_div (snd point2 - referenceTop) referenceHeight,
               e_stroke = stroke obj,
               e_strokeWidth = strokeWidth obj * or1 (scaleX obj)\<rparr>))"

text \<open>The loop over the canvas objects, pushing text layers and line elements in order.\<close>

fun export_objects ::
  "(font \<Rightarrow> string \<Rightarrow> real) \<Rightarrow> manager \<Rightarrow> nat list \<Rightarrow> text_layer list \<times> line_element list" where
  "export_objects measureText s [] = ([], [])"
| "export_objects measureText s (k # ks) =
     (let (ts, ls) = export_objects measureText s ks;
          obj = heap s k
      in if Some k = frameImage s \<or> isOverlay obj \<or> isMask obj then (ts, ls)
         else if otype obj = IText \<or> otype obj = Textbox
         then (export_text measureText (reference s) obj # ts, ls)
         else if otype obj = Line then (ts, export_line (reference s) obj # ls)
         else (ts, ls))"

definition exportPosterData :: "(font \<Rightarrow> string \<Rightarrow> real) \<Rightarrow> manager \<Rightarrow> poster_data" where
  "exportPosterData measureText s =
     (let isElementsPhase = (workflowPhase s = Elements);
          bgData = (if isElementsPhase then lockedBackgroundData s else None);
          selectionCoords = (case bgData of
                               Some d \<Rightarrow> l_selectionCoords d
                             | None \<Rightarrow> getSelectionCoords s);
          (referenceLeft, referenceTop, referenceWidth, referenceHeight) = reference s;
          (ts, ls) = export_objects measureText s (objects s)
      in \<lparr>p_backgroundMode = (case bgData of Some d \<Rightarrow> l_mode d | None \<Rightarrow> backgroundMode s),
          p_backgroundColor =
            (case bgData of Some d \<Rightarrow> l_backgroundColor d | None \<Rightarrow> backgroundColor s),
          p_gradientColors =
            (case bgData of Some d \<Rightarrow> l_gradientColors d | None \<Rightarrow> gradientColors s),
          p_gradientDirection =
            (case bgData of Some d \<Rightarrow> l_gradientDirection d | None \<Rightarrow> gradientDirection s),
          p_videoBase = (case bgData of Some d \<Rightarrow> l_videoBase d | None \<Rightarrow> videoBase s),
          p_videoPath = (case bgData of Some d \<Rightarrow> l_videoPath d | None \<Rightarrow> videoPath s),
          p_timestamp = (case bgData of Some d \<Rightarrow> l_timestamp d | None \<Rightarrow> currentTimestamp s),
          p_selectionCoords = selectionCoords,
          p_blur = (case bgData of Some d \<Rightarrow> l_blur d | None \<Rightarrow> blurAmount s),
          p_canvasWidth = referenceWidth,
          p_canvasHeight = referenceHeight,
          textLayers = ts,
          lineElements = ls\<rparr>)"

definition setVideo :: "string option \<Rightarrow> string option \<Rightarrow> manager \<Rightarrow> manager" where
  "setVideo base path s = s\<lparr>videoBase := base, videoPath := path\<rparr>"

text \<open>The state the constructor builds.\<close>

definition init :: manager where
  "init =
     \<lparr>canvasWidth = imageModeWidth, canvasHeight = imageModeHeight, overlayZoom = 1,
      heap = (\<lambda>k. blank Rect), nextId = 0, objects = [], activeObject = None,
      canvasBackground = Color ''#1a1a2e'', frameImage = None, selectionOverlay = None,
      darkMaskRects = [], frameDisplayInfo = None, backgroundMode = ''image'',
      backgroundColor = ''#000000'', gradientColors = (''#000000'', ''#333333''),
      gradientDirection = ''vertical'', blurAmount = 0, workflowPhase = Background,
      lockedBackgroundData = None, videoBase = None, videoPath = None,
      currentTimestamp = 0\<rparr>"

section \<open>Notions of the specification\<close>

text \<open>The state once the requested frame has arrived.\<close>

definition after_load :: "real \<Rightarrow> real \<Rightarrow> manager \<Rightarrow> manager" where
  "after_load w h s = (case setFrame_loaded w h s of Some s' \<Rightarrow> s' | None \<Rightarrow> s)"

text \<open>The geometry of the overlay, when there is one, and of the mask rectangles.\<close>

definition overlay_box :: "manager \<Rightarrow> box option" where
  "overlay_box s = (case selectionOverlay s of Some ov \<Rightarrow> Some (geom (heap s ov)) | None \<Rightarrow> None)"

definition mask_boxes :: "manager \<Rightarrow> box list" where
  "mask_boxes s = map (\<lambda>k. geom (heap s k)) (darkMaskRects s)"


text \<open>
  The four mask rectangles as the specification gives them: top, bottom, left, right,
  for a canvas \<open>cw \<times> ch\<close> and an overlay \<open>(l, t, w, h)\<close>.
\<close>

definition mask_spec :: "real \<Rightarrow> real \<Rightarrow> box \<Rightarrow> box list" where
  "mask_spec cw ch b =
     (case b of (l, t, w, h) \<Rightarrow>
        [(0, 0, cw, t), (0, t + h, cw, ch - (t + h)), (0, t, l, h),
         (l + w, t, cw - (l + w), h)])"


text \<open>
  The fields of the mask rectangles that \<open>_createDarkMask\<close> sets and
  \<open>_updateDarkMask\<close> never rewrites.
\<close>

definition anchored :: "manager \<Rightarrow> bool" where
  "anchored s =
     (length (darkMaskRects s) = 4
      \<and> o_left (heap s (darkMaskRects s ! 0)) = 0
      \<and> o_top (heap s (darkMaskRects s ! 0)) = 0
      \<and> o_width (heap s (darkMaskRects s ! 0)) = canvasWidth s
      \<and> o_left (heap s (darkMaskRects s ! 1)) = 0
      \<and> o_width (heap s (darkMaskRects s ! 1)) = canvasWidth s
      \<and> o_left (heap s (darkMaskRects s ! 2)) = 0)"


section \<open>Sample states\<close>

text \<open>
  A video is selected and its first frame has arrived: a frame of the canvas's own
  aspect, \<open>800 \<times> 500\<close>, and a wide frame, \<open>1920 \<times> 800\<close>.
\<close>

definition selected :: manager where
  "selected = setVideo (Some ''movies'') (Some ''film.mkv'') init"

definition full_frame :: manager where
  "full_frame = after_load 800 500 selected"






text \<open>
  The objects \<open>deleteSelected\<close> refuses to remove: the frame image by identity, the
  overlay and the mask rectangles by their marks. \<open>marked\<close> says that the manager's
  overlay and mask rectangles carry these marks.
\<close>

definition protected :: "manager \<Rightarrow> nat \<Rightarrow> bool" where
  "protected s k = (frameImage s = Some k \<or> isOverlay (heap s k) \<or> isMask (heap s k))"

definition marked :: "manager \<Rightarrow> bool" where
  "marked s =
     ((case selectionOverlay s of Some ov \<Rightarrow> isOverlay (heap s ov) | None \<Rightarrow> True)
      \<and> list_all (\<lambda>k. isMask (heap s k)) (darkMaskRects s))"

text \<open>The state after the user has clicked on the object \<open>k\<close>.\<close>

definition select_obj :: "nat \<Rightarrow> manager \<Rightarrow> manager" where
  "select_obj k s = s\<lparr>activeObject := Some k\<rparr>"

text \<open>\<open>new\<close> followed by \<open>canvas.add\<close>.\<close>

definition add_object :: "fobj \<Rightarrow> manager \<Rightarrow> manager" where
  "add_object ob s = canvas_add (nextId s) (alloc ob s)"

text \<open>
  Sample objects and a sample text measure (every character half an em wide). The
  elements-phase state \<open>poster\<close> is the confirmed background; a text box or a line is
  added to it and selected.
\<close>

definition half_em :: "font \<Rightarrow> string \<Rightarrow> real" where
  "half_em font line = (case font of (st, px, family) \<Rightarrow> real (length line) * px / 2)"

definition title_text :: fobj where
  "title_text =
     (blank Textbox)\<lparr>content := ''0123456789'', textAlign := ''right'',
        fontFamily := ''Arial'', fontSize := 36, fill := ''#ffffff'', o_width := 300,
        o_height := 40, o_left := 60, o_top := 100, boundingRect := (60, 100, 300, 40)\<rparr>"

definition poster :: manager where
  "poster = confirmBackground full_frame"

definition with_text :: manager where
  "with_text = select_obj 7 (add_object title_text poster)"

text \<open>
  The objects the export loop passes over, and the text objects.
\<close>

definition skipped :: "manager \<Rightarrow> nat \<Rightarrow> bool" where
  "skipped s k = (Some k = frameImage s \<or> isOverlay (heap s k) \<or> isMask (heap s k))"

definition is_text :: "fobj \<Rightarrow> bool" where
  "is_text ob = (otype ob = IText \<or> otype ob = Textbox)"

text \<open>
  The visible left edge of a text as the specification describes it: the container's
  left for left-aligned text, moved by half the difference of container width and
  measured width for centred text, by the whole difference for right-aligned text.
\<close>

definition aligned_left :: "string \<Rightarrow> real \<Rightarrow> real \<Rightarrow> real \<Rightarrow> real" where
  "aligned_left align containerLeft containerWidth measuredWidth =
     (if align = ''left'' then containerLeft
      else if align = ''center'' then containerLeft + (containerWidth - measuredWidth) / 2
      else if align = ''right'' then containerLeft + (containerWidth - measuredWidth)
      else containerLeft)"

text \<open>
  Modelled from the spec: the full 2D transform of an object (translation, rotation by
  an angle in degrees, scale), which Fabric's \<open>calcTransformMatrix\<close> computes and which
  is not among the repository's sources. The matrix is translation after rotation after
  scaling.
\<close>

definition trs_matrix :: "real \<Rightarrow> real \<Rightarrow> real \<Rightarrow> real \<Rightarrow> real \<Rightarrow> matrix" where
  "trs_matrix tx ty deg sx sy =
     (sx * cos (deg * pi / 180), sx * sin (deg * pi / 180),
      - (sy * sin (deg * pi / 180)), sy * cos (deg * pi / 180), tx, ty)"

text \<open>
  The line of the specification's scenario, added to the confirmed poster, and the
  sample text added while the overlay is still on the canvas.
\<close>

definition scenario_line :: fobj where
  "scenario_line =
     (blank Line)\<lparr>stroke := ''#ffffff'', strokeWidth := 2, linePoints := (0, 0, 0, 200),
        transformMatrix := (1, 0, 0, 1, 50, 50), o_left := 50, o_top := 50, o_height := 200\<rparr>"

definition with_line :: manager where
  "with_line = select_obj 7 (add_object scenario_line poster)"

definition overlay_text :: manager where
  "overlay_text = select_obj 6 (add_object title_text full_frame)"

text \<open>Text and line elements; the overlay \<open>_createSelectionOverlay\<close> builds.\<close>

definition is_element :: "fobj \<Rightarrow> bool" where
  "is_element ob = (otype ob = IText \<or> otype ob = Textbox \<or> otype ob = Line)"

definition centred_overlay :: "real \<Rightarrow> real \<Rightarrow> real \<Rightarrow> box" where
  "centred_overlay cw ch zoom =
     ((cw - baseOverlayHeight * zoom * (2 / 3)) / 2, (ch - baseOverlayHeight * zoom) / 2,
      baseOverlayHeight * zoom * (2 / 3), baseOverlayHeight * zoom)"

text \<open>A step that leaves the store and the overlay references alone.\<close>

definition same_store :: "manager \<Rightarrow> manager \<Rightarrow> bool" where
  "same_store s s' =
     (heap s' = heap s \<and> nextId s' = nextId s \<and> overlayZoom s' = overlayZoom s
      \<and> selectionOverlay s' = selectionOverlay s \<and> darkMaskRects s' = darkMaskRects s
      \<and> backgroundMode s' = backgroundMode s \<and> videoBase s' = videoBase s
      \<and> videoPath s' = videoPath s \<and> frameDisplayInfo s' = frameDisplayInfo s)"

text \<open>A step that touches nothing but the canvas's object list and selection.\<close>

definition only_scene :: "manager \<Rightarrow> manager \<Rightarrow> bool" where
  "only_scene s s' = (\<exists>os a. s' = s\<lparr>objects := os, activeObject := a\<rparr>)"

lemma only_scene_refl: "only_scene s s"
  unfolding only_scene_def
  by (rule exI [of _ "objects s"], rule exI [of _ "activeObject s"]) simp

lemma only_scene_trans: "only_scene s t \<Longrightarrow> only_scene t u \<Longrightarrow> only_scene s u"
  unfolding only_scene_def by (elim exE) (simp, blast)

lemma only_scene_fields:
  assumes "only_scene s s'"
  shows "heap s' = heap s" "nextId s' = nextId s" "selectionOverlay s' = selectionOverlay s"
    "darkMaskRects s' = darkMaskRects s" "frameImage s' = frameImage s"
    "canvasWidth s' = canvasWidth s" "canvasHeight s' = canvasHeight s"
    "frameDisplayInfo s' = frameDisplayInfo s" "overlayZoom s' = overlayZoom s"
  using assms unfolding only_scene_def by auto

lemma only_sceneI: "s' = s\<lparr>objects := os, activeObject := a\<rparr> \<Longrightarrow> only_scene s s'"
  unfolding only_scene_def by blast

lemma only_scene_canvas_remove: "only_scene s (canvas_remove k s)"
proof (cases "k \<in> set (objects s)")
  case True
  then show ?thesis
    by (intro only_sceneI [where os = "remove1 k (objects s)" and a =
          "if activeObject s = Some k then None else activeObject s"])
       (simp add: canvas_remove_def)
next
  case False
  then show ?thesis by (simp add: canvas_remove_def only_scene_refl)
qed

lemma only_scene_bringToFront: "only_scene s (bringToFront k s)"
  unfolding only_scene_def bringToFront_def
  by (rule exI [of _ "remove1 k (objects s) @ [k]"], rule exI [of _ "activeObject s"]) simp

lemma only_scene_sendToBack: "only_scene s (sendToBack k s)"
  unfolding only_scene_def sendToBack_def
  by (rule exI [of _ "k # remove1 k (objects s)"], rule exI [of _ "activeObject s"]) simp

lemma only_scene_canvas_add: "only_scene s (canvas_add k s)"
  unfolding only_scene_def canvas_add_def
  by (rule exI [of _ "objects s @ [k]"], rule exI [of _ "activeObject s"]) simp

lemma only_scene_fold:
  assumes "\<And>k t. only_scene t (f k t)"
  shows "only_scene s (fold f ks s)"
proof (induction ks arbitrary: s)
  case Nil
  show ?case by (simp add: only_scene_refl)
next
  case (Cons k ks)
  have "only_scene s (f k s)" by (rule assms)
  moreover have "only_scene (f k s) (fold f ks (f k s))" by (rule Cons.IH)
  ultimately show ?case by (simp add: only_scene_trans)
qed

lemma only_scene_reorderObjects: "only_scene s (reorderObjects s)"
proof -
  define s1 where "s1 = (case frameImage s of Some k \<Rightarrow> sendToBack k s | None \<Rightarrow> s)"
  define s2 where "s2 = fold bringToFront (darkMaskRects s1) s1"
  define s3 where "s3 = (case selectionOverlay s2 of Some k \<Rightarrow> bringToFront k s2 | None \<Rightarrow> s2)"
  have 1: "only_scene s s1"
    unfolding s1_def by (simp add: only_scene_refl only_scene_sendToBack split: option.split)
  have 2: "only_scene s1 s2"
    unfolding s2_def by (rule only_scene_fold) (rule only_scene_bringToFront)
  have 3: "only_scene s2 s3"
    unfolding s3_def by (simp add: only_scene_refl only_scene_bringToFront split: option.split)
  have 4: "only_scene s3 (fold (\<lambda>k t. if otype (heap t k) = IText \<or> otype (heap t k) = Line
                      then bringToFront k t else t) (objects s3) s3)"
    by (rule only_scene_fold) (simp add: only_scene_refl only_scene_bringToFront)
  have "reorderObjects s = fold (\<lambda>k t. if otype (heap t k) = IText \<or> otype (heap t k) = Line
                      then bringToFront k t else t) (objects s3) s3"
    unfolding reorderObjects_def Let_def s3_def s2_def s1_def by (rule refl)
  with 1 2 3 4 show ?thesis by (metis only_scene_trans)
qed

section \<open>Facts about the overlay operations\<close>



lemma heap_set_obj_same: "heap (set_obj k f s) k = f (heap s k)"
  by (simp add: set_obj_def)










lemma add_masks_boxes:
  "mask_boxes (add_masks ov s) = mask_spec (canvasWidth s) (canvasHeight s) (geom (heap s ov))"
  by (simp add: add_masks_def Let_def mask_boxes_def mask_spec_def geom_def alloc_def
        set_obj_def canvas_add_def new_rect_def)

lemma fold_remove_scene: "only_scene s (fold canvas_remove ks s)"
  by (rule only_scene_fold) (rule only_scene_canvas_remove)

lemma createDarkMask_boxes:
  assumes "selectionOverlay s = Some ov"
  shows "mask_boxes (createDarkMask s)
           = mask_spec (canvasWidth s) (canvasHeight s) (geom (heap s ov))"
proof -
  let ?s1 = "(fold canvas_remove (darkMaskRects s) s)\<lparr>darkMaskRects := []\<rparr>"
  have f: "heap ?s1 = heap s" "canvasWidth ?s1 = canvasWidth s"
    "canvasHeight ?s1 = canvasHeight s" "selectionOverlay ?s1 = Some ov"
    using only_scene_fields [OF fold_remove_scene [of s "darkMaskRects s"]] assms by simp_all
  have "createDarkMask s = reorderObjects (add_masks ov ?s1)"
    using f(4) by (simp add: createDarkMask_def Let_def)
  moreover have "mask_boxes (reorderObjects (add_masks ov ?s1)) = mask_boxes (add_masks ov ?s1)"
    using only_scene_fields [OF only_scene_reorderObjects [of "add_masks ov ?s1"]]
    by (simp add: mask_boxes_def)
  ultimately show ?thesis by (simp add: add_masks_boxes f)
qed


lemma createDarkMask_anchored:
  assumes "selectionOverlay s = Some ov"
  shows "anchored (createDarkMask s)"
proof -
  let ?s1 = "(fold canvas_remove (darkMaskRects s) s)\<lparr>darkMaskRects := []\<rparr>"
  have f: "selectionOverlay ?s1 = Some ov"
    using only_scene_fields [OF fold_remove_scene [of s "darkMaskRects s"]] assms by simp
  have e: "createDarkMask s = reorderObjects (add_masks ov ?s1)"
    using f by (simp add: createDarkMask_def Let_def)
  have "anchored (add_masks ov t)" for t
    by (simp add: anchored_def add_masks_def Let_def alloc_def set_obj_def canvas_add_def
          new_rect_def)
  then show ?thesis
    unfolding e
    using only_scene_fields [OF only_scene_reorderObjects [of "add_masks ov ?s1"]]
    by (simp add: anchored_def)
qed


section \<open>Containment of the overlay\<close>




section \<open>Zoom\<close>




section \<open>The dimming mask\<close>




section \<open>Phase guards\<close>

lemma confirmed_phase: "workflowPhase (confirmBackground full_frame) = Elements"
  by code_simp

lemma full_frame_phase: "workflowPhase full_frame = Background"
  by code_simp

text \<open>
  C7. \<open>confirmBackground\<close> in the elements phase returns the state it was given, and
  so does \<open>resetToBackgroundPhase\<close> in the background phase, which also requests no
  frame. The functions are total: there is no error to raise.
\<close>

theorem wrong_phase_noop:
  "(workflowPhase s = Elements \<longrightarrow> confirmBackground s = s)
   \<and> (workflowPhase s = Background \<longrightarrow> resetToBackgroundPhase s = (s, None))"
  by (simp add: confirmBackground_def resetToBackgroundPhase_def)

theorem wrong_phase_noop_witness:
  "workflowPhase (confirmBackground full_frame) = Elements
   \<and> confirmBackground (confirmBackground full_frame) = confirmBackground full_frame
   \<and> workflowPhase full_frame = Background
   \<and> resetToBackgroundPhase full_frame = (full_frame, None)"
  using wrong_phase_noop [of "confirmBackground full_frame"] wrong_phase_noop [of full_frame]
    confirmed_phase full_frame_phase
  by blast

section \<open>Deleting the selected object\<close>

text \<open>
  C10. With no active object \<open>deleteSelected\<close> changes nothing. With an active
  object \<open>a\<close>: if \<open>a\<close> is the frame image, or is marked as overlay or as mask, the
  state is unchanged; otherwise \<open>a\<close> is removed from the canvas. Where the manager's
  overlay and mask rectangles carry their marks, the overlay and every mask rectangle
  are therefore kept.
\<close>

theorem deleteSelected_protected:
  "(activeObject s = None \<longrightarrow> deleteSelected s = s)
   \<and> (activeObject s = Some a \<longrightarrow>
        (protected s a \<longrightarrow> deleteSelected s = s)
        \<and> (deleteSelected s \<noteq> s \<longrightarrow> \<not> protected s a)
        \<and> (\<not> protected s a \<longrightarrow>
             deleteSelected s = canvas_remove a s
             \<and> objects (deleteSelected s) = remove1 a (objects s))
        \<and> (marked s \<and> (selectionOverlay s = Some a \<or> a \<in> set (darkMaskRects s)) \<longrightarrow>
             deleteSelected s = s))"
proof -
  have "marked s \<Longrightarrow> selectionOverlay s = Some a \<or> a \<in> set (darkMaskRects s)
          \<Longrightarrow> protected s a"
    by (auto simp add: marked_def protected_def list_all_iff)
  moreover have "protected s a \<Longrightarrow> activeObject s = Some a \<Longrightarrow> deleteSelected s = s"
    by (auto simp add: deleteSelected_def protected_def)
  moreover have "\<not> protected s a \<Longrightarrow> activeObject s = Some a
          \<Longrightarrow> deleteSelected s = canvas_remove a s"
    by (auto simp add: deleteSelected_def protected_def)
  moreover have "objects (canvas_remove a s) = remove1 a (objects s)"
    by (simp add: canvas_remove_def remove1_idem)
  moreover have "activeObject s = None \<Longrightarrow> deleteSelected s = s"
    by (simp add: deleteSelected_def)
  ultimately show ?thesis by metis
qed


lemma deleteSelected_samples:
  "activeObject full_frame = None
   \<and> protected (select_obj 1 full_frame) 1 \<and> marked (select_obj 1 full_frame)
   \<and> selectionOverlay (select_obj 1 full_frame) = Some 1
   \<and> activeObject (select_obj 1 full_frame) = Some 1
   \<and> activeObject with_text = Some 7 \<and> \<not> protected with_text 7
   \<and> objects with_text = [6, 7]"
  by code_simp

theorem deleteSelected_protected_witness:
  "activeObject full_frame = None \<and> deleteSelected full_frame = full_frame
   \<and> activeObject (select_obj 1 full_frame) = Some 1
   \<and> protected (select_obj 1 full_frame) 1 \<and> marked (select_obj 1 full_frame)
   \<and> selectionOverlay (select_obj 1 full_frame) = Some 1
   \<and> deleteSelected (select_obj 1 full_frame) = select_obj 1 full_frame
   \<and> activeObject with_text = Some 7 \<and> \<not> protected with_text 7
   \<and> objects (deleteSelected with_text) = [6]"
proof -
  note a = deleteSelected_protected [of full_frame 0]
  note b = deleteSelected_protected [of "select_obj 1 full_frame" 1]
  note c = deleteSelected_protected [of with_text 7]
  have f: "activeObject full_frame = None" "activeObject (select_obj 1 full_frame) = Some 1"
    "protected (select_obj 1 full_frame) 1" "activeObject with_text = Some 7"
    "\<not> protected with_text 7" "objects with_text = [6, 7]"
    using deleteSelected_samples by simp_all
  have 1: "deleteSelected full_frame = full_frame"
    using a f(1) by metis
  have 2: "deleteSelected (select_obj 1 full_frame) = select_obj 1 full_frame"
    using b f(2,3) by metis
  have "objects (deleteSelected with_text) = remove1 7 (objects with_text)"
    using c f(4,5) by metis
  then have 3: "objects (deleteSelected with_text) = [6]"
    unfolding f(6) by simp
  show ?thesis using 1 2 3 deleteSelected_samples by simp
qed

section \<open>Selection coordinates\<close>

















section \<open>Export of lines and text\<close>

lemma export_objects_eq:
  "export_objects m s ks =
     (map (\<lambda>k. export_text m (reference s) (heap s k))
        (filter (\<lambda>k. \<not> skipped s k \<and> is_text (heap s k)) ks),
      map (\<lambda>k. export_line (reference s) (heap s k))
        (filter (\<lambda>k. \<not> skipped s k \<and> otype (heap s k) = Line) ks))"
  by (induction ks) (auto simp add: skipped_def is_text_def Let_def)

lemma export_layers:
  "textLayers (exportPosterData m s) =
     map (\<lambda>k. export_text m (reference s) (heap s k))
       (filter (\<lambda>k. \<not> skipped s k \<and> is_text (heap s k)) (objects s))"
  "lineElements (exportPosterData m s) =
     map (\<lambda>k. export_line (reference s) (heap s k))
       (filter (\<lambda>k. \<not> skipped s k \<and> otype (heap s k) = Line) (objects s))"
  by (simp_all add: exportPosterData_def Let_def export_objects_eq split: prod.split)

lemma export_line_fields:
  assumes "linePoints ob = (px1, py1, px2, py2)"
    and "transformMatrix ob = trs_matrix tx ty deg sx sy"
  shows "x1 (export_line (rl, rt, rw, rh) ob)
           = js_div (tx + sx * cos (deg * pi / 180) * px1 - sy * sin (deg * pi / 180) * py1 - rl) rw"
    and "y1 (export_line (rl, rt, rw, rh) ob)
           = js_div (ty + sx * sin (deg * pi / 180) * px1 + sy * cos (deg * pi / 180) * py1 - rt) rh"
    and "x2 (export_line (rl, rt, rw, rh) ob)
           = js_div (tx + sx * cos (deg * pi / 180) * px2 - sy * sin (deg * pi / 180) * py2 - rl) rw"
    and "y2 (export_line (rl, rt, rw, rh) ob)
           = js_div (ty + sx * sin (deg * pi / 180) * px2 + sy * cos (deg * pi / 180) * py2 - rt) rh"
    and "e_strokeWidth (export_line (rl, rt, rw, rh) ob) = strokeWidth ob * or1 (scaleX ob)"
  using assms
  by (simp_all add: export_line_def transformPoint_def trs_matrix_def Let_def algebra_simps)

lemma textLeft_aligned:
  "textLeft m ob =
     aligned_left (or_str (textAlign ob) ''center'') (fst (boundingRect ob))
       (o_width ob * or1 (scaleX ob)) (maxLineWidth m ob)"
  by (cases "boundingRect ob") (auto simp add: textLeft_def aligned_left_def Let_def)

lemma export_text_left:
  "t_left (export_text m (rl, rt, rw, rh) ob) = js_div (textLeft m ob - rl) rw"
  by (cases "boundingRect ob") (simp add: export_text_def)

lemma reference_elements:
  "workflowPhase s = Elements \<and> lockedBackgroundData s \<noteq> None
     \<Longrightarrow> reference s = (0, 0, canvasWidth s, canvasHeight s)"
  by (simp add: reference_def)

lemma scenario_line_matrix:
  "linePoints scenario_line = (0, 0, 0, 200)
   \<and> transformMatrix scenario_line = trs_matrix 50 50 0 1 1"
  by (simp add: scenario_line_def trs_matrix_def)

lemma with_line_facts:
  "workflowPhase with_line = Elements \<and> lockedBackgroundData with_line \<noteq> None
   \<and> canvasWidth with_line = 400 \<and> canvasHeight with_line = 600"
  by code_simp

text \<open>
  C1 (amended). The exported line elements are, in canvas order, the lines on the
  canvas other than frame image, overlay and mask. For each, the two endpoints are
  taken through the transform matrix (for a transform made of translation, rotation
  and scale: scaled, rotated, translated) and normalized by the reference rectangle:
  its left or top is subtracted and the difference divided by its width or height. The
  exported stroke width is the stroke width times \<open>scaleX\<close> (times 1 when \<open>scaleX\<close>
  is zero); it is not divided by the reference rectangle. For the line from
  \<open>(0, 0)\<close> to \<open>(0, 200)\<close>, rotation 0, scale \<open>(1, 1)\<close>, translated to
  \<open>(50, 50)\<close>, and a reference rectangle at the origin, as it is in the elements
  phase, the endpoints are \<open>(50/refW, 50/refH)\<close> and \<open>(50/refW, 250/refH)\<close>.
\<close>

theorem line_export:
  "lineElements (exportPosterData m s) =
     map (\<lambda>k. export_line (reference s) (heap s k))
       (filter (\<lambda>k. \<not> skipped s k \<and> otype (heap s k) = Line) (objects s))
   \<and> (linePoints ob = (px1, py1, px2, py2) \<and> transformMatrix ob = trs_matrix tx ty deg sx sy
        \<longrightarrow>
        x1 (export_line (rl, rt, rw, rh) ob)
          = js_div (tx + sx * cos (deg * pi / 180) * px1 - sy * sin (deg * pi / 180) * py1 - rl) rw
        \<and> y1 (export_line (rl, rt, rw, rh) ob)
          = js_div (ty + sx * sin (deg * pi / 180) * px1 + sy * cos (deg * pi / 180) * py1 - rt) rh
        \<and> x2 (export_line (rl, rt, rw, rh) ob)
          = js_div (tx + sx * cos (deg * pi / 180) * px2 - sy * sin (deg * pi / 180) * py2 - rl) rw
        \<and> y2 (export_line (rl, rt, rw, rh) ob)
          = js_div (ty + sx * sin (deg * pi / 180) * px2 + sy * cos (deg * pi / 180) * py2 - rt) rh)
   \<and> e_strokeWidth (export_line (rl, rt, rw, rh) ob) = strokeWidth ob * or1 (scaleX ob)
   \<and> (linePoints ob = (0, 0, 0, 200) \<and> transformMatrix ob = trs_matrix 50 50 0 1 1 \<longrightarrow>
        x1 (export_line (0, 0, rw, rh) ob) = js_div 50 rw
        \<and> y1 (export_line (0, 0, rw, rh) ob) = js_div 50 rh
        \<and> x2 (export_line (0, 0, rw, rh) ob) = js_div 50 rw
        \<and> y2 (export_line (0, 0, rw, rh) ob) = js_div 250 rh)
   \<and> (workflowPhase s = Elements \<and> lockedBackgroundData s \<noteq> None \<longrightarrow>
        reference s = (0, 0, canvasWidth s, canvasHeight s))"
proof -
  have a: "linePoints ob = (px1, py1, px2, py2) \<and> transformMatrix ob = trs_matrix tx ty deg sx sy
        \<longrightarrow>
        x1 (export_line (rl, rt, rw, rh) ob)
          = js_div (tx + sx * cos (deg * pi / 180) * px1 - sy * sin (deg * pi / 180) * py1 - rl) rw
        \<and> y1 (export_line (rl, rt, rw, rh) ob)
          = js_div (ty + sx * sin (deg * pi / 180) * px1 + sy * cos (deg * pi / 180) * py1 - rt) rh
        \<and> x2 (export_line (rl, rt, rw, rh) ob)
          = js_div (tx + sx * cos (deg * pi / 180) * px2 - sy * sin (deg * pi / 180) * py2 - rl) rw
        \<and> y2 (export_line (rl, rt, rw, rh) ob)
          = js_div (ty + sx * sin (deg * pi / 180) * px2 + sy * cos (deg * pi / 180) * py2 - rt) rh"
    using export_line_fields [of ob px1 py1 px2 py2 tx ty deg sx sy rl rt rw rh] by blast
  have b: "linePoints ob = (0, 0, 0, 200) \<and> transformMatrix ob = trs_matrix 50 50 0 1 1 \<longrightarrow>
        x1 (export_line (0, 0, rw, rh) ob) = js_div 50 rw
        \<and> y1 (export_line (0, 0, rw, rh) ob) = js_div 50 rh
        \<and> x2 (export_line (0, 0, rw, rh) ob) = js_div 50 rw
        \<and> y2 (export_line (0, 0, rw, rh) ob) = js_div 250 rh"
    using export_line_fields [of ob 0 0 0 200 50 50 0 1 1 0 0 rw rh] by simp
  have c: "e_strokeWidth (export_line (rl, rt, rw, rh) ob) = strokeWidth ob * or1 (scaleX ob)"
    by (cases "linePoints ob") (simp add: export_line_def Let_def)
  show ?thesis
    using a b c export_layers(2) [of m s] reference_elements [of s] by blast
qed

theorem line_export_witness:
  "linePoints scenario_line = (0, 0, 0, 200)
   \<and> transformMatrix scenario_line = trs_matrix 50 50 0 1 1
   \<and> x1 (export_line (0, 0, 400, 600) scenario_line) = Fin (1 / 8)
   \<and> y1 (export_line (0, 0, 400, 600) scenario_line) = Fin (1 / 12)
   \<and> x2 (export_line (0, 0, 400, 600) scenario_line) = Fin (1 / 8)
   \<and> y2 (export_line (0, 0, 400, 600) scenario_line) = Fin (5 / 12)
   \<and> workflowPhase with_line = Elements \<and> lockedBackgroundData with_line \<noteq> None
   \<and> reference with_line = (0, 0, 400, 600)"
proof -
  note t = line_export [of half_em with_line scenario_line 0 0 0 200 50 50 0 1 1 0 0 400 600]
  have r: "reference with_line = (0, 0, canvasWidth with_line, canvasHeight with_line)"
    using t with_line_facts by blast
  have e: "x1 (export_line (0, 0, 400, 600) scenario_line) = js_div 50 400
        \<and> y1 (export_line (0, 0, 400, 600) scenario_line) = js_div 50 600
        \<and> x2 (export_line (0, 0, 400, 600) scenario_line) = js_div 50 400
        \<and> y2 (export_line (0, 0, 400, 600) scenario_line) = js_div 250 600"
    using t scenario_line_matrix by blast
  show ?thesis
    using e r scenario_line_matrix with_line_facts by (simp add: js_div_def)
qed

text \<open>
  C1 as stated fails: for the scenario's line on the confirmed poster, 400 wide, the
  exported stroke width is 2, not 2 divided by the reference width.
\<close>

theorem line_export_counterexample:
  "map e_strokeWidth (lineElements (exportPosterData half_em with_line))
     \<noteq> [strokeWidth scenario_line * or1 (scaleX scenario_line)
          / p_canvasWidth (exportPosterData half_em with_line)]"
  by code_simp

lemma title_text_facts:
  "textAlign title_text = ''right'' \<and> o_width title_text * or1 (scaleX title_text) = 300
   \<and> maxLineWidth half_em title_text = 180 \<and> fst (boundingRect title_text) = 60"
  by code_simp

lemma with_text_facts:
  "workflowPhase with_text = Elements \<and> lockedBackgroundData with_text \<noteq> None
   \<and> canvasWidth with_text = 400 \<and> canvasHeight with_text = 600"
  by code_simp

text \<open>
  C8 (amended). The exported text layers are, in canvas order, the text objects on the
  canvas other than frame image, overlay and mask. The exported left of each is the
  container's left adjusted for the alignment (unchanged for left-aligned text, moved
  by half the difference of container width and widest measured line for centred
  text, by the whole difference for right-aligned text), minus the reference
  rectangle's left, divided by the reference width. A right-aligned element with
  container width 300, measured width 180 and container left 60 exports
  \<open>(60 + 300 - 180 - referenceLeft) / referenceWidth\<close>, which is
  \<open>(60 + 300 - 180) / referenceWidth\<close> when the reference rectangle starts at 0, as
  it does in the elements phase.
\<close>

theorem text_export:
  "textLayers (exportPosterData m s) =
     map (\<lambda>k. export_text m (reference s) (heap s k))
       (filter (\<lambda>k. \<not> skipped s k \<and> is_text (heap s k)) (objects s))
   \<and> t_left (export_text m (rl, rt, rw, rh) ob)
       = js_div (aligned_left (or_str (textAlign ob) ''center'') (fst (boundingRect ob))
                   (o_width ob * or1 (scaleX ob)) (maxLineWidth m ob) - rl) rw
   \<and> aligned_left ''left'' l cw mw = l
   \<and> aligned_left ''center'' l cw mw = l + (cw - mw) / 2
   \<and> aligned_left ''right'' l cw mw = l + (cw - mw)
   \<and> (textAlign ob = ''right'' \<and> o_width ob * or1 (scaleX ob) = 300
        \<and> maxLineWidth m ob = 180 \<and> fst (boundingRect ob) = 60 \<longrightarrow>
        t_left (export_text m (rl, rt, rw, rh) ob) = js_div (60 + 300 - 180 - rl) rw
        \<and> t_left (export_text m (0, rt, rw, rh) ob) = js_div (60 + 300 - 180) rw)
   \<and> (workflowPhase s = Elements \<and> lockedBackgroundData s \<noteq> None \<longrightarrow>
        reference s = (0, 0, canvasWidth s, canvasHeight s))"
proof -
  have a: "t_left (export_text m (x, rt, rw, rh) ob)
       = js_div (aligned_left (or_str (textAlign ob) ''center'') (fst (boundingRect ob))
                   (o_width ob * or1 (scaleX ob)) (maxLineWidth m ob) - x) rw" for x
    by (simp add: export_text_left textLeft_aligned)
  have b: "aligned_left ''left'' l cw mw = l"
    "aligned_left ''center'' l cw mw = l + (cw - mw) / 2"
    "aligned_left ''right'' l cw mw = l + (cw - mw)"
    by (simp_all add: aligned_left_def)
  have c: "textAlign ob = ''right'' \<and> o_width ob * or1 (scaleX ob) = 300
        \<and> maxLineWidth m ob = 180 \<and> fst (boundingRect ob) = 60 \<longrightarrow>
        t_left (export_text m (rl, rt, rw, rh) ob) = js_div (60 + 300 - 180 - rl) rw
        \<and> t_left (export_text m (0, rt, rw, rh) ob) = js_div (60 + 300 - 180) rw"
    by (simp add: a or_str_def aligned_left_def)
  show ?thesis
    using a [of rl] b c export_layers(1) [of m s] reference_elements [of s] by blast
qed

theorem text_export_witness:
  "textAlign title_text = ''right'' \<and> o_width title_text * or1 (scaleX title_text) = 300
   \<and> maxLineWidth half_em title_text = 180 \<and> fst (boundingRect title_text) = 60
   \<and> t_left (export_text half_em (0, 0, 400, 600) title_text) = Fin (9 / 20)
   \<and> workflowPhase with_text = Elements \<and> lockedBackgroundData with_text \<noteq> None
   \<and> reference with_text = (0, 0, 400, 600)"
proof -
  note t = text_export [of half_em with_text 0 0 400 600 title_text]
  have r: "reference with_text = (0, 0, canvasWidth with_text, canvasHeight with_text)"
    using t with_text_facts by blast
  have "t_left (export_text half_em (0, 0, 400, 600) title_text) = js_div (60 + 300 - 180) 400"
    using t title_text_facts by blast
  then have e: "t_left (export_text half_em (0, 0, 400, 600) title_text) = Fin (9 / 20)"
    by (simp add: js_div_def)
  show ?thesis using e r title_text_facts with_text_facts by simp
qed

text \<open>
  C8 as stated fails: while the overlay is on the canvas the reference rectangle is the
  overlay, whose left is 800/3, and the right-aligned text of the scenario exports
  \<open>(180 - 800/3) / (800/3)\<close>, not \<open>180 / (800/3)\<close>.
\<close>

theorem text_export_counterexample:
  "map t_left (textLayers (exportPosterData half_em overlay_text))
     \<noteq> [js_div (60 + 300 - 180) (p_canvasWidth (exportPosterData half_em overlay_text))]"
  by code_simp

section \<open>Reverting to the background phase\<close>

lemma same_store_refl: "same_store s s"
  by (simp add: same_store_def)

lemma same_store_trans: "same_store s t \<Longrightarrow> same_store t u \<Longrightarrow> same_store s u"
  by (simp add: same_store_def)

lemma only_scene_same_store: "only_scene s s' \<Longrightarrow> same_store s s'"
  unfolding only_scene_def same_store_def by auto

lemma same_store_clear_elements: "same_store s (clear_elements s)"
  unfolding clear_elements_def Let_def
  by (rule only_scene_same_store, rule only_scene_fold, rule only_scene_canvas_remove)

lemma same_store_upd:
  "same_store s (s\<lparr>frameImage := fi\<rparr>)"
  "same_store s (s\<lparr>canvasBackground := bg\<rparr>)"
  "same_store s (s\<lparr>canvasWidth := w, canvasHeight := h\<rparr>)"
  "same_store s (s\<lparr>currentTimestamp := ts\<rparr>)"
  "same_store s (s\<lparr>workflowPhase := ph, lockedBackgroundData := lk\<rparr>)"
  by (simp_all add: same_store_def)

lemma same_store_clear_frame: "same_store s (clear_frame s)"
proof (cases "frameImage s")
  case None
  then show ?thesis by (simp add: clear_frame_def same_store_refl)
next
  case (Some k)
  have "same_store s (canvas_remove k s)"
    by (rule only_scene_same_store) (rule only_scene_canvas_remove)
  moreover have "same_store (canvas_remove k s) ((canvas_remove k s)\<lparr>frameImage := None\<rparr>)"
    by (rule same_store_upd)
  ultimately show ?thesis using Some by (simp add: clear_frame_def same_store_trans)
qed

lemma same_store_resize: "same_store s (resizeCanvas w h s)"
  by (simp add: resizeCanvas_def same_store_refl same_store_upd)

lemma same_store_gradient: "same_store s (applyGradient s)"
  by (simp add: applyGradient_def Let_def same_store_upd)

lemma same_store_setFrame: "same_store s (fst (setFrame ts s))"
  by (simp add: setFrame_def Let_def same_store_refl same_store_upd split: option.split)

lemma same_store_restore: "same_store s (fst (restore_canvas s))"
proof -
  have 1: "same_store s (fst (setFrame ts (resizeCanvas w h s)))" for ts w h
    using same_store_resize same_store_setFrame by (rule same_store_trans)
  have 2: "same_store s ((resizeCanvas w h s)\<lparr>canvasBackground := bg\<rparr>)" for w h bg
    using same_store_resize same_store_upd(2) by (rule same_store_trans)
  have 3: "same_store s (applyGradient (resizeCanvas w h s))" for w h
    using same_store_resize same_store_gradient by (rule same_store_trans)
  show ?thesis
    by (simp add: restore_canvas_def Let_def 1 2 3 same_store_resize same_store_refl)
qed

lemma same_store_reset:
  "same_store s (fst (resetToBackgroundPhase s))"
proof (cases "workflowPhase s = Background")
  case True
  then show ?thesis by (simp add: resetToBackgroundPhase_def same_store_refl)
next
  case False
  let ?s3 = "(clear_frame (clear_elements s))\<lparr>canvasBackground := Color ''#1a1a2e''\<rparr>"
  have a: "same_store s ?s3"
    using same_store_clear_elements [of s] same_store_clear_frame [of "clear_elements s"]
    by (simp add: same_store_def)
  have b: "same_store ?s3 (fst (restore_canvas ?s3))" by (rule same_store_restore)
  have c: "same_store (fst (restore_canvas ?s3))
             ((fst (restore_canvas ?s3))\<lparr>workflowPhase := Background,
                 lockedBackgroundData := None\<rparr>)"
    by (rule same_store_upd)
  have "fst (resetToBackgroundPhase s) =
          (fst (restore_canvas ?s3))\<lparr>workflowPhase := Background, lockedBackgroundData := None\<rparr>"
    using False by (simp add: resetToBackgroundPhase_def Let_def split: prod.split)
  then show ?thesis using a b c by (simp add: same_store_def)
qed

lemma reset_changed:
  assumes "workflowPhase s = Elements"
  shows "workflowPhase (fst (resetToBackgroundPhase s)) = Background"
    and "lockedBackgroundData (fst (resetToBackgroundPhase s)) = None"
  using assms by (simp_all add: resetToBackgroundPhase_def Let_def split: prod.split)

lemma objects_canvas_remove: "objects (canvas_remove k s) = remove1 k (objects s)"
  by (simp add: canvas_remove_def remove1_idem)

lemma objects_fold_remove: "objects (fold canvas_remove ks s) = fold remove1 ks (objects s)"
  by (induction ks arbitrary: s) (simp_all add: objects_canvas_remove)

lemma fold_remove1_Cons:
  "\<forall>k \<in> set ks. k \<noteq> x \<Longrightarrow> fold remove1 ks (x # ys) = x # fold remove1 ks ys"
  by (induction ks arbitrary: ys) simp_all

lemma fold_remove1_filter: "fold remove1 (filter P xs) xs = filter (\<lambda>x. \<not> P x) xs"
proof (induction xs)
  case Nil
  show ?case by simp
next
  case (Cons x xs)
  show ?case
  proof (cases "P x")
    case True
    then show ?thesis using Cons.IH by simp
  next
    case False
    then have "\<forall>k \<in> set (filter P xs). k \<noteq> x" by auto
    then show ?thesis using False Cons.IH by (simp add: fold_remove1_Cons)
  qed
qed

lemma heap_clear_elements: "heap (clear_elements s) = heap s"
  using same_store_clear_elements [of s] by (simp add: same_store_def)

lemma objects_clear_elements:
  "objects (clear_elements s) = filter (\<lambda>k. \<not> is_element (heap s k)) (objects s)"
  by (simp add: clear_elements_def Let_def objects_fold_remove is_element_def
        fold_remove1_filter)

lemma objects_clear_frame:
  "set (objects (clear_frame s)) \<subseteq> set (objects s)"
  "\<lbrakk>distinct (objects s); frameImage s = Some k\<rbrakk> \<Longrightarrow> k \<notin> set (objects (clear_frame s))"
  "frameImage (clear_frame s) = None"
  using set_remove1_subset [of _ "objects s"]
  by (auto simp add: clear_frame_def objects_canvas_remove split: option.split)

lemma frameImage_clear_elements: "frameImage (clear_elements s) = frameImage s"
  unfolding clear_elements_def Let_def
  using only_scene_fields(5) [OF only_scene_fold [of canvas_remove, OF only_scene_canvas_remove]]
  by simp

lemma restore_canvas_keeps:
  "objects (fst (restore_canvas s)) = objects s"
  "frameImage (fst (restore_canvas s)) = frameImage s"
  by (simp_all add: restore_canvas_def Let_def resizeCanvas_def applyGradient_def setFrame_def
        split: option.split)

lemma reset_fst:
  assumes "workflowPhase s = Elements"
  shows "fst (resetToBackgroundPhase s) =
          (fst (restore_canvas ((clear_frame (clear_elements s))
              \<lparr>canvasBackground := Color ''#1a1a2e''\<rparr>)))
            \<lparr>workflowPhase := Background, lockedBackgroundData := None\<rparr>"
    and "snd (resetToBackgroundPhase s) =
          snd (restore_canvas ((clear_frame (clear_elements s))
              \<lparr>canvasBackground := Color ''#1a1a2e''\<rparr>))"
  using assms by (simp_all add: resetToBackgroundPhase_def Let_def split: prod.split)

lemma reset_objects:
  assumes "workflowPhase s = Elements"
  shows "objects (fst (resetToBackgroundPhase s)) = objects (clear_frame (clear_elements s))"
    and "frameImage (fst (resetToBackgroundPhase s)) = None"
  using assms by (simp_all add: reset_fst restore_canvas_keeps objects_clear_frame)

lemma reset_no_elements:
  assumes "workflowPhase s = Elements" and "k \<in> set (objects (fst (resetToBackgroundPhase s)))"
  shows "\<not> is_element (heap (fst (resetToBackgroundPhase s)) k)"
proof -
  have "k \<in> set (objects (clear_elements s))"
    using assms objects_clear_frame(1) [of "clear_elements s"] by (auto simp add: reset_objects)
  then have "\<not> is_element (heap s k)" by (simp add: objects_clear_elements)
  moreover have "heap (fst (resetToBackgroundPhase s)) = heap s"
    using same_store_reset [of s] by (simp add: same_store_def)
  ultimately show ?thesis by simp
qed

lemma reset_frame_removed:
  assumes "workflowPhase s = Elements" and "distinct (objects s)" and "frameImage s = Some k"
  shows "k \<notin> set (objects (fst (resetToBackgroundPhase s)))"
proof -
  have "distinct (objects (clear_elements s))"
    using assms(2) by (simp add: objects_clear_elements)
  then show ?thesis
    using assms objects_clear_frame(2) [of "clear_elements s" k]
    by (simp add: reset_objects frameImage_clear_elements)
qed

lemma reset_image_mode:
  assumes "workflowPhase s = Elements" and "backgroundMode s = ''image''"
    and "videoBase s = Some base" and "videoPath s = Some path" and "base \<noteq> []" and "path \<noteq> []"
  shows "snd (resetToBackgroundPhase s) = Some (base, path, currentTimestamp s)"
    and "canvasWidth (fst (resetToBackgroundPhase s)) = imageModeWidth"
    and "canvasHeight (fst (resetToBackgroundPhase s)) = imageModeHeight"
proof -
  let ?s3 = "(clear_frame (clear_elements s))\<lparr>canvasBackground := Color ''#1a1a2e''\<rparr>"
  have "same_store s ?s3"
    using same_store_clear_elements [of s] same_store_clear_frame [of "clear_elements s"]
    by (simp add: same_store_def)
  then have f: "backgroundMode ?s3 = ''image''" "videoBase ?s3 = Some base"
    "videoPath ?s3 = Some path"
    using assms by (simp_all add: same_store_def)
  have "only_scene s (clear_elements s)"
    unfolding clear_elements_def Let_def
    by (rule only_scene_fold) (rule only_scene_canvas_remove)
  then have "currentTimestamp (clear_elements s) = currentTimestamp s"
    unfolding only_scene_def by auto
  moreover have "currentTimestamp (clear_frame u) = currentTimestamp u" for u
    by (simp add: clear_frame_def canvas_remove_def split: option.split)
  ultimately have t: "currentTimestamp ?s3 = currentTimestamp s" by simp
  show "snd (resetToBackgroundPhase s) = Some (base, path, currentTimestamp s)"
    "canvasWidth (fst (resetToBackgroundPhase s)) = imageModeWidth"
    "canvasHeight (fst (resetToBackgroundPhase s)) = imageModeHeight"
    using assms(1,5,6) f t
    by (simp_all add: reset_fst restore_canvas_def Let_def resizeCanvas_def setFrame_def)
qed

lemma place_frame_fields:
  "nextId (place_frame w h s) = Suc (nextId s)"
  "canvasWidth (place_frame w h s) = canvasWidth s"
  "canvasHeight (place_frame w h s) = canvasHeight s"
  "overlayZoom (place_frame w h s) = overlayZoom s"
  "frameDisplayInfo (place_frame w h s) = Some (fitFrame w h (canvasWidth s) (canvasHeight s))"
  "frameImage (place_frame w h s) = Some (nextId s)"
  by (simp_all add: place_frame_def Let_def alloc_def canvas_remove_def set_obj_def
        applyBlurFilter_def sendToBack_def canvas_add_def split: option.split)

lemma createSelectionOverlay_fields:
  "selectionOverlay (createSelectionOverlay u) = Some (nextId u)"
  "nextId (createSelectionOverlay u) = Suc (nextId u)"
  "geom (heap (createSelectionOverlay u) (nextId u))
     = centred_overlay (canvasWidth u) (canvasHeight u) (overlayZoom u)"
  "isOverlay (heap (createSelectionOverlay u) (nextId u))"
  "canvasWidth (createSelectionOverlay u) = canvasWidth u"
  "canvasHeight (createSelectionOverlay u) = canvasHeight u"
  "frameDisplayInfo (createSelectionOverlay u) = frameDisplayInfo u"
proof -
  define u1 where "u1 = (case selectionOverlay u of Some k \<Rightarrow> canvas_remove k u | None \<Rightarrow> u)"
  have "only_scene u u1"
    unfolding u1_def by (simp add: only_scene_refl only_scene_canvas_remove split: option.split)
  note f = only_scene_fields [OF this]
  have e: "createSelectionOverlay u =
      canvas_add (nextId u1)
        ((alloc ((new_rect ((canvasWidth u1 - baseOverlayHeight * overlayZoom u1 * (2 / 3)) / 2)
                    ((canvasHeight u1 - baseOverlayHeight * overlayZoom u1) / 2)
                    (baseOverlayHeight * overlayZoom u1 * (2 / 3))
                    (baseOverlayHeight * overlayZoom u1))\<lparr>isOverlay := True\<rparr>) u1)
          \<lparr>selectionOverlay := Some (nextId u1)\<rparr>)"
    unfolding createSelectionOverlay_def Let_def u1_def by (rule refl)
  show "selectionOverlay (createSelectionOverlay u) = Some (nextId u)"
    "nextId (createSelectionOverlay u) = Suc (nextId u)"
    "geom (heap (createSelectionOverlay u) (nextId u))
       = centred_overlay (canvasWidth u) (canvasHeight u) (overlayZoom u)"
    "isOverlay (heap (createSelectionOverlay u) (nextId u))"
    "canvasWidth (createSelectionOverlay u) = canvasWidth u"
    "canvasHeight (createSelectionOverlay u) = canvasHeight u"
    "frameDisplayInfo (createSelectionOverlay u) = frameDisplayInfo u"
    unfolding e
    by (simp_all add: canvas_add_def alloc_def f geom_def centred_overlay_def new_rect_def)
qed

lemma add_masks_fields:
  "selectionOverlay (add_masks ov v) = selectionOverlay v"
  "darkMaskRects (add_masks ov v) = [nextId v, nextId v + 1, nextId v + 2, nextId v + 3]"
  "frameDisplayInfo (add_masks ov v) = frameDisplayInfo v"
  "k < nextId v \<Longrightarrow> heap (add_masks ov v) k = heap v k"
  "list_all (\<lambda>k. isMask (heap (add_masks ov v) k)) (darkMaskRects (add_masks ov v))"
  by (simp_all add: add_masks_def Let_def alloc_def set_obj_def canvas_add_def)

lemma createDarkMask_fields:
  assumes "selectionOverlay v = Some ov"
  shows "selectionOverlay (createDarkMask v) = Some ov"
    and "darkMaskRects (createDarkMask v) = [nextId v, nextId v + 1, nextId v + 2, nextId v + 3]"
    and "frameDisplayInfo (createDarkMask v) = frameDisplayInfo v"
    and "k < nextId v \<Longrightarrow> heap (createDarkMask v) k = heap v k"
proof -
  let ?s1 = "(fold canvas_remove (darkMaskRects v) v)\<lparr>darkMaskRects := []\<rparr>"
  note f = only_scene_fields [OF fold_remove_scene [of v "darkMaskRects v"]]
  have e: "createDarkMask v = reorderObjects (add_masks ov ?s1)"
    using assms f by (simp add: createDarkMask_def Let_def)
  note g = only_scene_fields [OF only_scene_reorderObjects [of "add_masks ov ?s1"]]
  show "selectionOverlay (createDarkMask v) = Some ov"
    "darkMaskRects (createDarkMask v) = [nextId v, nextId v + 1, nextId v + 2, nextId v + 3]"
    "frameDisplayInfo (createDarkMask v) = frameDisplayInfo v"
    "k < nextId v \<Longrightarrow> heap (createDarkMask v) k = heap v k"
    unfolding e using assms by (simp_all add: g add_masks_fields f)
qed

lemma setFrame_loaded_result:
  assumes "0 < w" and "0 < h" and "canvasHeight t \<noteq> 0"
  shows "setFrame_loaded w h t = Some (after_load w h t)"
    and "selectionOverlay (after_load w h t) = Some (nextId t + 1)"
    and "overlay_box (after_load w h t)
           = Some (centred_overlay (canvasWidth t) (canvasHeight t) (overlayZoom t))"
    and "darkMaskRects (after_load w h t)
           = [nextId t + 2, nextId t + 3, nextId t + 4, nextId t + 5]"
    and "mask_boxes (after_load w h t)
           = mask_spec (canvasWidth t) (canvasHeight t)
               (centred_overlay (canvasWidth t) (canvasHeight t) (overlayZoom t))"
    and "frameDisplayInfo (after_load w h t)
           = Some (fitFrame w h (canvasWidth t) (canvasHeight t))"
proof -
  let ?u = "place_frame w h t"
  let ?v = "createSelectionOverlay ?u"
  have a: "after_load w h t = createDarkMask ?v" "setFrame_loaded w h t = Some (createDarkMask ?v)"
    using assms by (simp_all add: after_load_def setFrame_loaded_def)
  have ov: "selectionOverlay ?v = Some (Suc (nextId t))"
    by (simp add: createSelectionOverlay_fields place_frame_fields)
  have n: "nextId ?v = Suc (Suc (nextId t))"
    by (simp add: createSelectionOverlay_fields place_frame_fields)
  have g: "geom (heap ?v (Suc (nextId t)))
      = centred_overlay (canvasWidth t) (canvasHeight t) (overlayZoom t)"
    using createSelectionOverlay_fields(3) [of ?u] by (simp add: place_frame_fields)
  have cw: "canvasWidth ?v = canvasWidth t" "canvasHeight ?v = canvasHeight t"
    by (simp_all add: createSelectionOverlay_fields place_frame_fields)
  note c = createDarkMask_fields [OF ov]
  show "setFrame_loaded w h t = Some (after_load w h t)" by (simp add: a)
  show "selectionOverlay (after_load w h t) = Some (nextId t + 1)"
    by (simp add: a c)
  show "overlay_box (after_load w h t)
          = Some (centred_overlay (canvasWidth t) (canvasHeight t) (overlayZoom t))"
    by (simp add: a overlay_box_def c n g)
  show "darkMaskRects (after_load w h t)
          = [nextId t + 2, nextId t + 3, nextId t + 4, nextId t + 5]"
    by (simp add: a c n)
  show "mask_boxes (after_load w h t)
          = mask_spec (canvasWidth t) (canvasHeight t)
              (centred_overlay (canvasWidth t) (canvasHeight t) (overlayZoom t))"
    by (simp add: a createDarkMask_boxes [OF ov] g cw)
  show "frameDisplayInfo (after_load w h t)
          = Some (fitFrame w h (canvasWidth t) (canvasHeight t))"
    by (simp add: a c createSelectionOverlay_fields place_frame_fields)
qed

lemma confirmed_init_facts:
  "workflowPhase (confirmBackground init) = Elements
   \<and> \<not> truthy (videoBase (confirmBackground init))
   \<and> selectionOverlay (confirmBackground init) = None"
  by code_simp

lemma with_text_revert_facts:
  "workflowPhase with_text = Elements \<and> distinct (objects with_text)
   \<and> backgroundMode with_text = ''image'' \<and> videoBase with_text = Some ''movies''
   \<and> videoPath with_text = Some ''film.mkv'' \<and> frameImage with_text = Some 6
   \<and> nextId with_text = 8 \<and> overlayZoom with_text = 1 \<and> currentTimestamp with_text = 0"
  by code_simp

text \<open>
  C6. Let \<open>resetToBackgroundPhase\<close> run in the elements phase. The state it returns
  is in the background phase, has no snapshot and no frame image, and no text or line
  object is left on its canvas; the former background object is off the canvas (the
  canvas holding each object once). In image mode with a video selected it has asked
  for the frame at the current timestamp on the 800 by 500 canvas, and once a frame
  arrives the overlay and the four mask rectangles are objects made after the revert
  (their identities are the ones \<open>new\<close> hands out next), the overlay centred at the
  current zoom and the mask rectangles those of the specification. In the other cases
  no frame is requested and the overlay reference is as before: colour and gradient
  backgrounds have no overlay.
\<close>

theorem revert_restores_background:
  assumes "workflowPhase s = Elements"
  shows "workflowPhase (fst (resetToBackgroundPhase s)) = Background
       \<and> lockedBackgroundData (fst (resetToBackgroundPhase s)) = None
       \<and> frameImage (fst (resetToBackgroundPhase s)) = None
       \<and> (\<forall>k \<in> set (objects (fst (resetToBackgroundPhase s))).
             \<not> is_element (heap (fst (resetToBackgroundPhase s)) k))
       \<and> (distinct (objects s) \<and> frameImage s = Some b \<longrightarrow>
             b \<notin> set (objects (fst (resetToBackgroundPhase s))))
       \<and> (backgroundMode s = ''image'' \<and> videoBase s = Some base \<and> videoPath s = Some path
            \<and> base \<noteq> [] \<and> path \<noteq> [] \<longrightarrow>
             snd (resetToBackgroundPhase s) = Some (base, path, currentTimestamp s)
             \<and> (0 < w \<and> 0 < h \<longrightarrow>
                  setFrame_loaded w h (fst (resetToBackgroundPhase s))
                    = Some (after_load w h (fst (resetToBackgroundPhase s)))
                  \<and> selectionOverlay (after_load w h (fst (resetToBackgroundPhase s)))
                      = Some (nextId s + 1)
                  \<and> darkMaskRects (after_load w h (fst (resetToBackgroundPhase s)))
                      = [nextId s + 2, nextId s + 3, nextId s + 4, nextId s + 5]
                  \<and> overlay_box (after_load w h (fst (resetToBackgroundPhase s)))
                      = Some (centred_overlay imageModeWidth imageModeHeight (overlayZoom s))
                  \<and> mask_boxes (after_load w h (fst (resetToBackgroundPhase s)))
                      = mask_spec imageModeWidth imageModeHeight
                          (centred_overlay imageModeWidth imageModeHeight (overlayZoom s))
                  \<and> frameDisplayInfo (after_load w h (fst (resetToBackgroundPhase s)))
                      = Some (fitFrame w h imageModeWidth imageModeHeight)))
       \<and> (backgroundMode s \<noteq> ''image'' \<or> \<not> truthy (videoBase s) \<or> \<not> truthy (videoPath s)
            \<longrightarrow> snd (resetToBackgroundPhase s) = None
                \<and> selectionOverlay (fst (resetToBackgroundPhase s)) = selectionOverlay s
                \<and> darkMaskRects (fst (resetToBackgroundPhase s)) = darkMaskRects s)"
proof -
  let ?s' = "fst (resetToBackgroundPhase s)"
  note st = same_store_reset [of s]
  have f: "nextId ?s' = nextId s" "overlayZoom ?s' = overlayZoom s"
    "selectionOverlay ?s' = selectionOverlay s" "darkMaskRects ?s' = darkMaskRects s"
    using st by (simp_all add: same_store_def)
  have 1: "workflowPhase ?s' = Background" "lockedBackgroundData ?s' = None"
    "frameImage ?s' = None"
    using assms by (simp_all add: reset_changed reset_objects)
  have 2: "\<forall>k \<in> set (objects ?s'). \<not> is_element (heap ?s' k)"
    using assms reset_no_elements by blast
  have 3: "distinct (objects s) \<and> frameImage s = Some b \<longrightarrow> b \<notin> set (objects ?s')"
    using assms reset_frame_removed by blast
  have 4: "snd (resetToBackgroundPhase s) = Some (base, path, currentTimestamp s)
             \<and> (0 < w \<and> 0 < h \<longrightarrow>
                  setFrame_loaded w h ?s' = Some (after_load w h ?s')
                  \<and> selectionOverlay (after_load w h ?s') = Some (nextId s + 1)
                  \<and> darkMaskRects (after_load w h ?s')
                      = [nextId s + 2, nextId s + 3, nextId s + 4, nextId s + 5]
                  \<and> overlay_box (after_load w h ?s')
                      = Some (centred_overlay imageModeWidth imageModeHeight (overlayZoom s))
                  \<and> mask_boxes (after_load w h ?s')
                      = mask_spec imageModeWidth imageModeHeight
                          (centred_overlay imageModeWidth imageModeHeight (overlayZoom s))
                  \<and> frameDisplayInfo (after_load w h ?s')
                      = Some (fitFrame w h imageModeWidth imageModeHeight))"
    if m: "backgroundMode s = ''image''" "videoBase s = Some base" "videoPath s = Some path"
      "base \<noteq> []" "path \<noteq> []"
  proof -
    note r = reset_image_mode [OF assms m]
    have nz: "canvasHeight ?s' \<noteq> 0" by (simp add: r imageModeHeight_def)
    show ?thesis
      using setFrame_loaded_result [of w h ?s', OF _ _ nz] r f by simp
  qed
  have 5: "snd (resetToBackgroundPhase s) = None"
    if "backgroundMode s \<noteq> ''image'' \<or> \<not> truthy (videoBase s) \<or> \<not> truthy (videoPath s)"
  proof -
    let ?s3 = "(clear_frame (clear_elements s))\<lparr>canvasBackground := Color ''#1a1a2e''\<rparr>"
    have "same_store s ?s3"
      using same_store_clear_elements [of s] same_store_clear_frame [of "clear_elements s"]
      by (simp add: same_store_def)
    then have "backgroundMode ?s3 = backgroundMode s" "videoBase ?s3 = videoBase s"
      "videoPath ?s3 = videoPath s"
      by (simp_all add: same_store_def)
    then show ?thesis
      using that assms
      by (auto simp add: reset_fst restore_canvas_def Let_def resizeCanvas_def)
  qed
  show ?thesis using 1 2 3 4 5 f by blast
qed

theorem revert_restores_background_witness:
  "workflowPhase with_text = Elements \<and> distinct (objects with_text)
   \<and> frameImage with_text = Some 6 \<and> backgroundMode with_text = ''image''
   \<and> videoBase with_text = Some ''movies'' \<and> videoPath with_text = Some ''film.mkv''
   \<and> workflowPhase (fst (resetToBackgroundPhase with_text)) = Background
   \<and> lockedBackgroundData (fst (resetToBackgroundPhase with_text)) = None
   \<and> 6 \<notin> set (objects (fst (resetToBackgroundPhase with_text)))
   \<and> snd (resetToBackgroundPhase with_text) = Some (''movies'', ''film.mkv'', 0)
   \<and> selectionOverlay (after_load 1920 800 (fst (resetToBackgroundPhase with_text))) = Some 9
   \<and> overlay_box (after_load 1920 800 (fst (resetToBackgroundPhase with_text)))
       = Some (800 / 3, 50, 800 / 3, 400)
   \<and> workflowPhase (confirmBackground init) = Elements
   \<and> \<not> truthy (videoBase (confirmBackground init))
   \<and> snd (resetToBackgroundPhase (confirmBackground init)) = None
   \<and> selectionOverlay (fst (resetToBackgroundPhase (confirmBackground init))) = None"
proof -
  have a: "workflowPhase with_text = Elements" "distinct (objects with_text)"
    "frameImage with_text = Some 6" "backgroundMode with_text = ''image''"
    "videoBase with_text = Some ''movies''" "videoPath with_text = Some ''film.mkv''"
    "nextId with_text = 8" "overlayZoom with_text = 1" "currentTimestamp with_text = 0"
    using with_text_revert_facts by simp_all
  note t = revert_restores_background [OF a(1), of 6 "''movies''" "''film.mkv''" 1920 800]
  have 1: "workflowPhase (fst (resetToBackgroundPhase with_text)) = Background"
    "lockedBackgroundData (fst (resetToBackgroundPhase with_text)) = None"
    "6 \<notin> set (objects (fst (resetToBackgroundPhase with_text)))"
    using t a(2,3) by blast+
  have 2: "snd (resetToBackgroundPhase with_text) = Some (''movies'', ''film.mkv'', 0)"
    "selectionOverlay (after_load 1920 800 (fst (resetToBackgroundPhase with_text))) = Some 9"
    "overlay_box (after_load 1920 800 (fst (resetToBackgroundPhase with_text)))
       = Some (centred_overlay imageModeWidth imageModeHeight 1)"
    using t a(4-9) by simp_all
  have 3: "centred_overlay imageModeWidth imageModeHeight 1 = (800 / 3, 50, 800 / 3, 400)"
    by (simp add: centred_overlay_def imageModeWidth_def imageModeHeight_def
          baseOverlayHeight_def)
  have b: "workflowPhase (confirmBackground init) = Elements"
    "\<not> truthy (videoBase (confirmBackground init))"
    "selectionOverlay (confirmBackground init) = None"
    using confirmed_init_facts by simp_all
  note u = revert_restores_background [OF b(1)]
  have 4: "snd (resetToBackgroundPhase (confirmBackground init)) = None"
    "selectionOverlay (fst (resetToBackgroundPhase (confirmBackground init))) = None"
    using u b(2,3) by simp_all
  show ?thesis using a 1 2 3 4 b by simp
qed

end
